theory Spec2Isabelle
  imports Complex_Main "HOL-Library.Log_Nat" "HOL-Library.AList" "HOL-Library.Multiset"
begin

section \<open>JavaScript numbers\<close>

text \<open>
  The file \<^verbatim>\<open>src/comm/blockchain.js\<close> computes with JavaScript numbers, which are
  IEEE-754 binary64 values. A finite number is modelled by the rational it denotes, and
  every arithmetic result is rounded to 53 significant bits, to nearest, ties to even.
  The exponent range is kept unbounded: overflow to \<open>Infinity\<close>, gradual underflow and
  the sign of zero are not modelled. \<open>NaN\<close> is a value of its own, since the code
  produces it from \<open>undefined / 1000\<close>.
\<close>

definition ilog2 :: "rat \<Rightarrow> int" where
  \<comment> \<open>for \<open>0 < x\<close>: the \<open>k\<close> with \<open>2 ^ k \<le> x < 2 ^ (k + 1)\<close>\<close>
  "ilog2 x = (if 1 \<le> x then bitlen \<lfloor>x\<rfloor> - 1 else - bitlen (\<lceil>1 / x\<rceil> - 1))"

definition round_half_even :: "rat \<Rightarrow> int" where
  "round_half_even x =
     (let f = \<lfloor>x\<rfloor>; r = x - of_int f
      in if r < 1 / 2 then f
         else if 1 / 2 < r then f + 1
         else if even f then f else f + 1)"

definition fl_pos :: "rat \<Rightarrow> rat" where
  \<comment> \<open>for \<open>0 < x\<close>: \<open>x\<close> rounded to a multiple of \<open>2 ^ (ilog2 x - 52)\<close>\<close>
  "fl_pos x = (let u = power_int 2 (ilog2 x - 52)
               in of_int (round_half_even (x / u)) * u)"

definition fl :: "rat \<Rightarrow> rat" where
  "fl x = (if x = 0 then 0 else if 0 < x then fl_pos x else - fl_pos (- x))"

datatype jsnum = NaN | Num rat

fun js_add :: "jsnum \<Rightarrow> jsnum \<Rightarrow> jsnum" where
  "js_add (Num a) (Num b) = Num (fl (a + b))"
| "js_add _ _ = NaN"

fun js_sub :: "jsnum \<Rightarrow> jsnum \<Rightarrow> jsnum" where
  "js_sub (Num a) (Num b) = Num (fl (a - b))"
| "js_sub _ _ = NaN"

fun js_div :: "jsnum \<Rightarrow> jsnum \<Rightarrow> jsnum" where
  \<comment> \<open>the only divisor in the file is the constant 1000\<close>
  "js_div (Num a) (Num b) = Num (fl (a / b))"
| "js_div _ _ = NaN"

fun js_lt :: "jsnum \<Rightarrow> jsnum \<Rightarrow> bool" where
  \<comment> \<open>\<open>a < b\<close>: false as soon as one side is \<open>NaN\<close>\<close>
  "js_lt (Num a) (Num b) = (a < b)"
| "js_lt _ _ = False"

definition js_gt :: "jsnum \<Rightarrow> jsnum \<Rightarrow> bool" where
  "js_gt a b = js_lt b a"

fun js_le :: "jsnum \<Rightarrow> jsnum \<Rightarrow> bool" where
  \<comment> \<open>\<open>a <= b\<close>; the file does not use it, the statements below do\<close>
  "js_le (Num a) (Num b) = (a \<le> b)"
| "js_le _ _ = False"

text \<open>
  A variable declared without an initialiser holds \<open>undefined\<close> until it is assigned:
  \<open>None\<close> is \<open>undefined\<close>. An arithmetic or relational operator converts its operand
  with \<open>ToNumber\<close>, which sends \<open>undefined\<close> to \<open>NaN\<close>.
\<close>

type_synonym var = "jsnum option"

fun ToNumber :: "var \<Rightarrow> jsnum" where
  "ToNumber None = NaN"
| "ToNumber (Some n) = n"

definition Math_round :: "rat \<Rightarrow> int" where
  \<comment> \<open>the nearest integer, a tie going up\<close>
  "Math_round x = \<lfloor>x + 1 / 2\<rfloor>"

function digits :: "int \<Rightarrow> string" where
  "digits n = (if n < 10 then [char_of (48 + n)]
               else digits (n div 10) @ [char_of (48 + n mod 10)])"
  by pat_completeness auto
termination
  by (relation "measure nat") auto

declare digits.simps [simp del]

definition toString :: "int \<Rightarrow> string" where
  \<comment> \<open>the decimal numeral of an integer, which is what \<open>Number.prototype.toString\<close>
      prints for an integer below \<open>2 ^ 53\<close> in absolute value (times in milliseconds are
      far below); from there on JavaScript prints the shortest digits that read back as
      the same number, and the exponent form from \<open>10 ^ 21\<close>\<close>
  "toString i = (if i < 0 then CHR ''-'' # digits (- i) else digits i)"

section \<open>Transaction results and statistics\<close>

text \<open>
  A result of an invoke or query transaction, as documented above
  \<open>invokeSmartContract\<close>. \<open>getDefaultTxStats\<close> reads \<open>status\<close>, \<open>time_create\<close> and, for a
  successful transaction only, \<open>time_valid\<close>; the fields \<open>id\<close> and \<open>result\<close> are never
  read and are left out. The two times are finite numbers (milliseconds). \<open>time_valid\<close> of
  a result that is not successful is not read; the examples below give it 0.
\<close>

record tx_result =
  status :: string
  time_create :: rat
  time_valid :: rat

record min_max =
  min_s :: jsnum
  max_s :: jsnum

record min_max_sum = min_max +
  sum_s :: jsnum

text \<open>
  The object \<open>txStatistics\<close>. \<open>throughput\<close> is an object used as a dictionary from
  strings to counts: an association list with one entry per key, a new key going to the
  end. Only its content as a map (\<open>map_of\<close>) is meaningful. The counts \<open>succ\<close>, \<open>fail\<close> and
  those of \<open>throughput\<close> are integers that only grow by additions of integers; below
  \<open>2 ^ 53\<close> such additions are exact, and the counts are natural numbers here.
\<close>

record 'o txStatistics =
  succ :: nat
  fail :: nat
  create :: min_max
  valid :: min_max
  delay :: min_max_sum
  throughput :: "(string \<times> nat) list"
  out :: "'o list"

text \<open>The local variables of \<open>getDefaultTxStats\<close>.\<close>

record vars =
  v_succ :: nat
  v_fail :: nat
  v_delay :: jsnum
  minValid :: var
  maxValid :: var
  minCreate :: var
  maxCreate :: var
  minDelay :: jsnum
  maxDelay :: jsnum
  v_throughput :: "(string \<times> nat) list"

definition init_vars :: vars where
  "init_vars = \<lparr>v_succ = 0, v_fail = 0, v_delay = Num 0,
                 minValid = None, maxValid = None, minCreate = None, maxCreate = None,
                 minDelay = Num 100000, maxDelay = Num 0, v_throughput = []\<rparr>"

text \<open>
  The code tracks the bounds of \<open>time_create\<close> (lines 156 to 167) and of \<open>time_valid\<close>
  (lines 173 to 184) with the same statements on two pairs of variables.
\<close>

definition track :: "jsnum \<Rightarrow> var \<times> var \<Rightarrow> var \<times> var" where
  "track x p =
     (case p of (mn, mx) \<Rightarrow>
        if mn = None then (Some x, Some x)
        else (if js_lt x (ToNumber mn) then Some x else mn,
              if js_gt x (ToNumber mx) then Some x else mx))"

definition count_up :: "string \<Rightarrow> (string \<times> nat) list \<Rightarrow> (string \<times> nat) list" where
  \<comment> \<open>lines 195 to 200\<close>
  "count_up idx tp =
     (case map_of tp idx of
        None \<Rightarrow> AList.update idx 1 tp
      | Some c \<Rightarrow> AList.update idx (c + 1) tp)"

definition latency :: "tx_result \<Rightarrow> jsnum" where
  \<comment> \<open>\<open>d = (valid - create) / 1000\<close>\<close>
  "latency stat =
     js_div (js_sub (Num (time_valid stat)) (Num (time_create stat))) (Num 1000)"

definition bucket :: "tx_result \<Rightarrow> string" where
  \<comment> \<open>\<open>idx = Math.round(valid).toString()\<close>\<close>
  "bucket stat = toString (Math_round (time_valid stat))"

definition loop_body :: "tx_result \<Rightarrow> vars \<Rightarrow> vars" where
  "loop_body stat s =
     (let create = Num (time_create stat);
          (mnc, mxc) = track create (minCreate s, maxCreate s);
          s1 = s\<lparr>minCreate := mnc, maxCreate := mxc\<rparr>
      in if status stat = ''success'' then
           (let valid = Num (time_valid stat);
                d = latency stat;
                (mnv, mxv) = track valid (minValid s1, maxValid s1)
            in s1\<lparr>v_succ := v_succ s1 + 1,
                  minValid := mnv, maxValid := mxv,
                  v_delay := js_add (v_delay s1) d,
                  minDelay := (if js_lt d (minDelay s1) then d else minDelay s1),
                  maxDelay := (if js_gt d (maxDelay s1) then d else maxDelay s1),
                  v_throughput := count_up (bucket stat) (v_throughput s1)\<rparr>)
         else s1\<lparr>v_fail := v_fail s1 + 1\<rparr>)"

definition run_loop :: "tx_result list \<Rightarrow> vars \<Rightarrow> vars" where
  "run_loop results s = fold loop_body results s"

definition make_stats :: "vars \<Rightarrow> 'o txStatistics" where
  "make_stats s =
     \<lparr>succ = v_succ s,
      fail = v_fail s,
      create = \<lparr>min_s = js_div (ToNumber (minCreate s)) (Num 1000),
                max_s = js_div (ToNumber (maxCreate s)) (Num 1000)\<rparr>,
      valid = \<lparr>min_s = js_div (ToNumber (minValid s)) (Num 1000),
               max_s = js_div (ToNumber (maxValid s)) (Num 1000)\<rparr>,
      delay = \<lparr>min_s = minDelay s, max_s = maxDelay s, sum_s = v_delay s\<rparr>,
      throughput = v_throughput s,
      out = []\<rparr>"

definition getDefaultTxStats :: "tx_result list \<Rightarrow> 'o txStatistics" where
  "getDefaultTxStats results = make_stats (run_loop results init_vars)"

section \<open>Merging statistics\<close>

definition merge_throughput ::
  "(string \<times> nat) list \<Rightarrow> (string \<times> nat) list \<Rightarrow> (string \<times> nat) list" where
  \<comment> \<open>the \<open>for (let j in v.throughput)\<close> loop, on \<open>r.throughput\<close>\<close>
  "merge_throughput r v =
     fold (\<lambda>(j, c) tp. case map_of tp j of
                          None \<Rightarrow> AList.update j c tp
                        | Some c0 \<Rightarrow> AList.update j (c0 + c) tp) v r"

definition merge_step :: "'o txStatistics \<Rightarrow> 'o txStatistics \<Rightarrow> 'o txStatistics" where
  \<comment> \<open>one round of the loop of \<open>mergeDefaultTxStats\<close>: \<open>v\<close> is merged into \<open>r\<close>\<close>
  "merge_step r v =
     \<lparr>succ = succ r + succ v,
      fail = fail r + fail v,
      create = \<lparr>min_s = (if js_lt (min_s (create v)) (min_s (create r))
                         then min_s (create v) else min_s (create r)),
                max_s = (if js_gt (max_s (create v)) (max_s (create r))
                         then max_s (create v) else max_s (create r))\<rparr>,
      valid = \<lparr>min_s = (if js_lt (min_s (valid v)) (min_s (valid r))
                        then min_s (valid v) else min_s (valid r)),
               max_s = (if js_gt (max_s (valid v)) (max_s (valid r))
                        then max_s (valid v) else max_s (valid r))\<rparr>,
      delay = \<lparr>min_s = (if js_lt (min_s (delay v)) (min_s (delay r))
                        then min_s (delay v) else min_s (delay r)),
               max_s = (if js_gt (max_s (delay v)) (max_s (delay r))
                        then max_s (delay v) else max_s (delay r)),
               sum_s = js_add (sum_s (delay r)) (sum_s (delay v))\<rparr>,
      throughput = merge_throughput (throughput r) (throughput v),
      out = out r @ out v\<rparr>"

text \<open>
  \<open>mergeDefaultTxStats\<close> returns nothing and leaves the merged statistics in the first
  element of the array; the model returns the array as it is after the call. The
  elements are distinct objects, as the results of separate calls of
  \<open>getDefaultTxStats\<close> are.
\<close>

fun mergeDefaultTxStats :: "'o txStatistics list \<Rightarrow> 'o txStatistics list" where
  "mergeDefaultTxStats [] = []"
| "mergeDefaultTxStats (r # vs) = foldl merge_step r vs # vs"

section \<open>The facade\<close>

datatype jsval = Undefined | Null | Boolean bool | String string | Number jsnum | Object

fun typeof :: "jsval \<Rightarrow> string" where
  "typeof Undefined = ''undefined''"
| "typeof Null = ''object''"
| "typeof (Boolean b) = ''boolean''"
| "typeof (String s) = ''string''"
| "typeof (Number n) = ''number''"
| "typeof Object = ''object''"

text \<open>
  \<open>backend\<close> is the method \<open>this.bcObj.invokeSmartContract\<close> of the backend object, a
  function of its five arguments. An argument that is left out is \<open>undefined\<close>. The
  operator \<open>||\<close> evaluates \<open>timeout < 0\<close> only for a timeout of type number.
\<close>

definition invokeSmartContract ::
  "('c \<Rightarrow> string \<Rightarrow> string \<Rightarrow> 'a \<Rightarrow> jsval \<Rightarrow> 'p) \<Rightarrow> 'c \<Rightarrow> string \<Rightarrow> string \<Rightarrow> 'a \<Rightarrow> jsval \<Rightarrow> 'p" where
  "invokeSmartContract backend context contractID contractVer args timeout =
     (if typeof timeout \<noteq> ''number'' \<or>
         (case timeout of Number n \<Rightarrow> js_lt n (Num 0) | _ \<Rightarrow> False)
      then backend context contractID contractVer args (Number (Num 120))
      else backend context contractID contractVer args timeout)"

text \<open>
  The constructor. \<open>config\<close> is the object that \<open>require(configPath)\<close> returns: a plain
  object (its prototype is \<open>Object.prototype\<close>, as for every object read from a JSON file
  or written as a literal), given by the map of its own properties. Of the value of a
  property the constructor can observe only whether it can be called, and then what the
  call with a key returns, as a condition, or throws.

  \<open>config.hasOwnProperty(k)\<close> looks the method up on the object itself first. Without
  an own property of that name the inherited method answers whether \<open>k\<close> is an own
  property. An own property \<open>hasOwnProperty\<close> shadows it: calling a value that is not a
  function throws a \<open>TypeError\<close>.

  The three backend classes are parameters: their constructors are outside this file and
  may throw. What is thrown leaves the constructor unchanged, and then no object results:
  the result is either the value thrown or the object constructed.
\<close>

datatype 'x js_error = Error string | TypeError | Other 'x

datatype 'x property = Data | Callable "string \<Rightarrow> 'x js_error + bool"

record 'b Blockchain =
  bcType :: string
  bcObj :: 'b

definition hasOwnProperty :: "(string \<rightharpoonup> 'x property) \<Rightarrow> string \<Rightarrow> 'x js_error + bool" where
  "hasOwnProperty config k =
     (case config ''hasOwnProperty'' of
        None \<Rightarrow> Inr (config k \<noteq> None)
      | Some Data \<Rightarrow> Inl TypeError
      | Some (Callable f) \<Rightarrow> f k)"

definition new_backend ::
  "string \<Rightarrow> (string \<Rightarrow> 'x js_error + 'b) \<Rightarrow> string \<Rightarrow> 'x js_error + 'b Blockchain" where
  \<comment> \<open>\<open>this.bcType = ty; this.bcObj = new cls(configPath)\<close>\<close>
  "new_backend ty cls configPath =
     (case cls configPath of
        Inl e \<Rightarrow> Inl e
      | Inr b \<Rightarrow> Inr \<lparr>bcType = ty, bcObj = b\<rparr>)"

definition new_Blockchain ::
  "(string \<Rightarrow> 'x js_error + 'b) \<Rightarrow> (string \<Rightarrow> 'x js_error + 'b) \<Rightarrow>
   (string \<Rightarrow> 'x js_error + 'b) \<Rightarrow> (string \<rightharpoonup> 'x property) \<Rightarrow> string \<Rightarrow>
   'x js_error + 'b Blockchain" where
  "new_Blockchain fabric sawtooth iroha config configPath =
     (case hasOwnProperty config ''fabric'' of
        Inl e \<Rightarrow> Inl e
      | Inr True \<Rightarrow> new_backend ''fabric'' fabric configPath
      | Inr False \<Rightarrow>
          (case hasOwnProperty config ''sawtooth'' of
             Inl e \<Rightarrow> Inl e
           | Inr True \<Rightarrow> new_backend ''sawtooth'' sawtooth configPath
           | Inr False \<Rightarrow>
               (case hasOwnProperty config ''iroha'' of
                  Inl e \<Rightarrow> Inl e
                | Inr True \<Rightarrow> new_backend ''iroha'' iroha configPath
                | Inr False \<Rightarrow>
                    Inl (Error (''Unknown blockchain config file '' @ configPath)))))"

section \<open>Merge plans\<close>

text \<open>
  The workers' results are merged in some order and grouping. A plan is either one group
  of transaction results, summarised by \<open>getDefaultTxStats\<close>, or a call of
  \<open>mergeDefaultTxStats\<close> on an array of one or more statistics that were themselves
  obtained by plans; the merged statistics are element 0 of the array after the call.
\<close>

datatype plan = Group "tx_result list" | Merge plan "plan list"

fun run_plan :: "plan \<Rightarrow> 'o txStatistics" where
  "run_plan (Group results) = getDefaultTxStats results"
| "run_plan (Merge p ps) = hd (mergeDefaultTxStats (run_plan p # map run_plan ps))"

fun records_of :: "plan \<Rightarrow> tx_result list" where
  "records_of (Group results) = results"
| "records_of (Merge p ps) = records_of p @ concat (map records_of ps)"

section \<open>Notions of the statements and proofs\<close>

definition successes :: "tx_result list \<Rightarrow> tx_result list" where
  "successes results = filter (\<lambda>stat. status stat = ''success'') results"

definition seconds :: "tx_result \<Rightarrow> rat" where
  \<comment> \<open>the value of \<open>latency\<close>, which is never \<open>NaN\<close>\<close>
  "seconds stat = fl (fl (time_valid stat - time_create stat) / 1000)"

definition bounds_of :: "rat set \<Rightarrow> min_max" where
  \<comment> \<open>least and greatest element of a finite set of times, converted to seconds\<close>
  "bounds_of S = (if S = {} then \<lparr>min_s = NaN, max_s = NaN\<rparr>
                  else \<lparr>min_s = Num (fl (Min S / 1000)), max_s = Num (fl (Max S / 1000))\<rparr>)"

definition hits :: "tx_result list \<Rightarrow> string \<Rightarrow> nat" where
  \<comment> \<open>the number of successful results whose key is \<open>k\<close>\<close>
  "hits results k = count (mset (map bucket (successes results))) k"

definition tallies :: "(string \<times> nat) list \<Rightarrow> tx_result list \<Rightarrow> bool" where
  "tallies tp results \<longleftrightarrow>
     distinct (map fst tp) \<and>
     (\<forall>k. map_of tp k = (if hits results k = 0 then None else Some (hits results k)))"

definition summarises :: "'o txStatistics \<Rightarrow> tx_result list \<Rightarrow> bool" where
  "summarises st results \<longleftrightarrow>
     succ st = length (successes results) \<and>
     fail st = length (filter (\<lambda>stat. status stat \<noteq> ''success'') results) \<and>
     tallies (throughput st) results"

section \<open>Rounding is monotone\<close>

lemma rhe_of_int: "round_half_even (of_int n) = n"
  by (simp add: round_half_even_def Let_def)

lemma rhe_lower: "\<lfloor>x\<rfloor> \<le> round_half_even x"
  by (simp add: round_half_even_def Let_def)

lemma rhe_upper: "round_half_even x \<le> \<lfloor>x\<rfloor> + 1"
  by (simp add: round_half_even_def Let_def)

lemma rhe_mono: assumes "x \<le> y" shows "round_half_even x \<le> round_half_even y"
proof (cases "\<lfloor>x\<rfloor> = \<lfloor>y\<rfloor>")
  case True
  with assms show ?thesis
    by (auto simp: round_half_even_def Let_def)
next
  case False
  with assms have "\<lfloor>x\<rfloor> + 1 \<le> \<lfloor>y\<rfloor>"
    using floor_mono [of x y] by linarith
  with rhe_upper [of x] rhe_lower [of y] show ?thesis by linarith
qed

lemma ilog2_lower: assumes "0 < x" shows "power_int 2 (ilog2 x) \<le> x"
proof (cases "1 \<le> x")
  case True
  define n where "n = \<lfloor>x\<rfloor>"
  have n: "0 < n" using True by (simp add: n_def)
  have b: "1 \<le> bitlen n" using n bitlen_eq_zero_iff [of n] bitlen_nonneg [of n] by linarith
  have "(2::int) ^ nat (bitlen n - 1) \<le> n" using bitlen_bounds [OF n] by simp
  then have "(of_int ((2::int) ^ nat (bitlen n - 1)) :: rat) \<le> of_int n" 
    by (simp only: of_int_le_iff)
  also have "\<dots> \<le> x" by (simp add: n_def)
  finally show ?thesis using True b
    by (simp add: ilog2_def n_def power_int_def)
next
  case False
  define m where "m = \<lceil>1 / x\<rceil> - 1"
  have y: "1 < 1 / x" using False assms by simp
  have m: "0 < m" using y unfolding m_def by linarith
  have b: "1 \<le> bitlen m" using m bitlen_eq_zero_iff [of m] bitlen_nonneg [of m] by linarith
  have "m < 2 ^ nat (bitlen m)" using bitlen_bounds [OF m] by simp
  then have "m + 1 \<le> 2 ^ nat (bitlen m)" by simp
  then have "(of_int (m + 1) :: rat) \<le> of_int (2 ^ nat (bitlen m))"
    by (simp only: of_int_le_iff)
  moreover have "1 / x \<le> of_int (m + 1)" by (simp add: m_def)
  ultimately have "1 / x \<le> 2 ^ nat (bitlen m)" by simp
  then have "1 / 2 ^ nat (bitlen m) \<le> x" using assms
    by (simp add: field_simps)
  then show ?thesis using False b
    by (simp add: ilog2_def m_def power_int_def field_simps)
qed

lemma ilog2_upper: assumes "0 < x" shows "x < power_int 2 (ilog2 x + 1)"
proof (cases "1 \<le> x")
  case True
  define n where "n = \<lfloor>x\<rfloor>"
  have n: "0 < n" using True by (simp add: n_def)
  have b: "1 \<le> bitlen n" using n bitlen_eq_zero_iff [of n] bitlen_nonneg [of n] by linarith
  have "n < 2 ^ nat (bitlen n)" using bitlen_bounds [OF n] by simp
  then have "n + 1 \<le> 2 ^ nat (bitlen n)" by simp
  then have "(of_int (n + 1) :: rat) \<le> of_int (2 ^ nat (bitlen n))"
    by (simp only: of_int_le_iff)
  moreover have "x < of_int (n + 1)" unfolding n_def by linarith
  ultimately have "x < 2 ^ nat (bitlen n)" by simp
  then show ?thesis using True b
    by (simp add: ilog2_def n_def power_int_def)
next
  case False
  define m where "m = \<lceil>1 / x\<rceil> - 1"
  have y: "1 < 1 / x" using False assms by simp
  have m: "0 < m" using y unfolding m_def by linarith
  have b: "1 \<le> bitlen m" using m bitlen_eq_zero_iff [of m] bitlen_nonneg [of m] by linarith
  have "(2::int) ^ nat (bitlen m - 1) \<le> m" using bitlen_bounds [OF m] by simp
  then have "(of_int ((2::int) ^ nat (bitlen m - 1)) :: rat) \<le> of_int m" 
    by (simp only: of_int_le_iff)
  then have "(2::rat) ^ nat (bitlen m - 1) \<le> of_int m" by simp
  also have "of_int m < 1 / x" unfolding m_def by linarith
  finally have "2 ^ nat (bitlen m - 1) < 1 / x" .
  then have "x < 1 / 2 ^ nat (bitlen m - 1)" using assms
    by (simp add: field_simps)
  moreover have "power_int (2::rat) (ilog2 x + 1) = 1 / 2 ^ nat (bitlen m - 1)"
    using False b by (auto simp add: ilog2_def m_def power_int_def field_simps nat_diff_distrib)
  ultimately show ?thesis by simp
qed

lemma ilog2_mono: assumes "0 < x" "x \<le> y" shows "ilog2 x \<le> ilog2 y"
proof (rule ccontr)
  assume "\<not> ilog2 x \<le> ilog2 y"
  then have "ilog2 y + 1 \<le> ilog2 x" by simp
  then have "power_int (2::rat) (ilog2 y + 1) \<le> power_int 2 (ilog2 x)"
    by (intro power_int_increasing) auto
  moreover have "y < power_int 2 (ilog2 y + 1)" using assms by (intro ilog2_upper) auto
  moreover have "power_int 2 (ilog2 x) \<le> x" using assms by (intro ilog2_lower)
  ultimately show False using assms by linarith
qed

lemma fl_pos_lower: assumes "0 < x" shows "power_int 2 (ilog2 x) \<le> fl_pos x"
proof -
  define u :: rat where "u = power_int 2 (ilog2 x - 52)"
  have u: "0 < u" by (simp add: u_def)
  have e: "power_int (2::rat) (ilog2 x) = 2 ^ 52 * u"
    unfolding u_def by (simp add: power_int_diff)
  have "2 ^ 52 * u \<le> x" using ilog2_lower [OF assms] e by simp
  then have "2 ^ 52 \<le> x / u" using u by (simp add: field_simps)
  then have "round_half_even (of_int (2 ^ 52)) \<le> round_half_even (x / u)"
    by (intro rhe_mono) simp
  then have "(2::int) ^ 52 \<le> round_half_even (x / u)" by (simp only: rhe_of_int)
  then have "(of_int (2 ^ 52) :: rat) \<le> of_int (round_half_even (x / u))"
    by (simp only: of_int_le_iff)
  then have "2 ^ 52 * u \<le> of_int (round_half_even (x / u)) * u"
    using u by simp
  then show ?thesis using e by (simp add: fl_pos_def Let_def u_def)
qed

lemma fl_pos_upper: assumes "0 < x" shows "fl_pos x \<le> power_int 2 (ilog2 x + 1)"
proof -
  define u :: rat where "u = power_int 2 (ilog2 x - 52)"
  have u: "0 < u" by (simp add: u_def)
  have e: "power_int (2::rat) (ilog2 x + 1) = 2 ^ 53 * u"
    unfolding u_def by (simp add: power_int_diff power_int_add)
  have "x \<le> 2 ^ 53 * u" using ilog2_upper [OF assms] e by simp
  then have "x / u \<le> 2 ^ 53" using u by (simp add: field_simps)
  then have "round_half_even (x / u) \<le> round_half_even (of_int (2 ^ 53))"
    by (intro rhe_mono) simp
  then have "round_half_even (x / u) \<le> (2::int) ^ 53" by (simp only: rhe_of_int)
  then have "(of_int (round_half_even (x / u)) :: rat) \<le> of_int (2 ^ 53)"
    by (simp only: of_int_le_iff)
  then have "of_int (round_half_even (x / u)) * u \<le> 2 ^ 53 * u"
    using u by simp
  then show ?thesis using e by (simp add: fl_pos_def Let_def u_def)
qed

lemma fl_pos_mono: assumes "0 < x" "x \<le> y" shows "fl_pos x \<le> fl_pos y"
proof (cases "ilog2 x = ilog2 y")
  case True
  define u :: rat where "u = power_int 2 (ilog2 y - 52)"
  have u: "0 < u" by (simp add: u_def)
  have "x / u \<le> y / u" using assms u by (simp add: divide_right_mono)
  then have "round_half_even (x / u) \<le> round_half_even (y / u)" by (rule rhe_mono)
  then have "(of_int (round_half_even (x / u)) :: rat) \<le> of_int (round_half_even (y / u))"
    by (simp only: of_int_le_iff)
  then have "of_int (round_half_even (x / u)) * u \<le> of_int (round_half_even (y / u)) * u"
    using u by simp
  then show ?thesis using True by (simp add: fl_pos_def Let_def u_def)
next
  case False
  have y: "0 < y" using assms by simp
  from False ilog2_mono [OF assms] have "ilog2 x + 1 \<le> ilog2 y" by simp
  then have "power_int (2::rat) (ilog2 x + 1) \<le> power_int 2 (ilog2 y)"
    by (intro power_int_increasing) auto
  with fl_pos_upper [OF assms(1)] fl_pos_lower [OF y] show ?thesis by linarith
qed

lemma fl_pos_positive: assumes "0 < x" shows "0 < fl_pos x"
proof -
  have "(0::rat) < power_int 2 (ilog2 x)" by simp
  with fl_pos_lower [OF assms] show ?thesis by linarith
qed

lemma fl_mono: assumes "x \<le> y" shows "fl x \<le> fl y"
proof -
  consider "0 < x" | "x = 0" | "x < 0" "0 < y" | "x < 0" "y = 0" | "x < 0" "y < 0" by linarith
  then show ?thesis
  proof cases
    case 1
    then show ?thesis using assms fl_pos_mono [of x y] by (simp add: fl_def)
  next
    case 2
    then show ?thesis using assms fl_pos_positive [of y] by (auto simp: fl_def)
  next
    case 3
    then show ?thesis using fl_pos_positive [of y] fl_pos_positive [of "- x"] by (simp add: fl_def)
  next
    case 4
    then show ?thesis using fl_pos_positive [of "- x"] by (simp add: fl_def)
  next
    case 5
    then show ?thesis using assms fl_pos_mono [of "- y" "- x"] by (simp add: fl_def)
  qed
qed

section \<open>What the loop of \<open>getDefaultTxStats\<close> computes\<close>

lemma latency_Num: "latency stat = Num (seconds stat)"
  by (simp add: latency_def seconds_def)

lemma track_undefined: "track x (None, mx) = (Some x, Some x)"
  by (simp add: track_def)

lemma track_numbers:
  "track (Num x) (Some (Num a), Some (Num b)) = (Some (Num (min x a)), Some (Num (max x b)))"
  by (auto simp: track_def js_gt_def)

lemma fold_track_numbers:
  "fold track (map Num xs) (Some (Num a), Some (Num b)) =
     (Some (Num (fold min xs a)), Some (Num (fold max xs b)))"
  by (induction xs arbitrary: a b) (simp_all add: track_numbers)

lemma fold_track_init:
  "fold track (map Num xs) (None, None) =
     (if xs = [] then (None, None)
      else (Some (Num (Min (set xs))), Some (Num (Max (set xs)))))"
proof (cases xs)
  case Nil
  then show ?thesis by simp
next
  case (Cons x xs')
  then show ?thesis
    using Min.set_eq_fold [of x xs'] Max.set_eq_fold [of x xs']
    by (simp add: track_undefined fold_track_numbers)
qed

lemma loop_create:
  "(minCreate (fold loop_body rs s), maxCreate (fold loop_body rs s)) =
     fold track (map Num (map time_create rs)) (minCreate s, maxCreate s)"
  by (induction rs arbitrary: s) (auto simp: loop_body_def Let_def split: prod.splits)

lemma loop_valid:
  "(minValid (fold loop_body rs s), maxValid (fold loop_body rs s)) =
     fold track (map Num (map time_valid (successes rs))) (minValid s, maxValid s)"
  by (induction rs arbitrary: s) (auto simp: loop_body_def successes_def Let_def split: prod.splits)

lemma loop_minDelay:
  "minDelay s = Num a \<Longrightarrow>
   minDelay (fold loop_body rs s) = Num (fold min (map seconds (successes rs)) a)"
  by (induction rs arbitrary: s a)
     (auto simp: loop_body_def successes_def latency_Num Let_def min_def split: prod.splits)

lemma loop_maxDelay:
  "maxDelay s = Num a \<Longrightarrow>
   maxDelay (fold loop_body rs s) = Num (fold max (map seconds (successes rs)) a)"
  by (induction rs arbitrary: s a)
     (auto simp: loop_body_def successes_def latency_Num Let_def max_def js_gt_def split: prod.splits)

lemma loop_succ:
  "v_succ (fold loop_body rs s) = v_succ s + length (successes rs)"
  by (induction rs arbitrary: s) (auto simp: loop_body_def successes_def Let_def split: prod.splits)

lemma loop_fail:
  "v_fail (fold loop_body rs s) = v_fail s + length (filter (\<lambda>r. status r \<noteq> ''success'') rs)"
  by (induction rs arbitrary: s) (auto simp: loop_body_def Let_def split: prod.splits)

lemma loop_delay:
  "v_delay (fold loop_body rs s) = fold (\<lambda>r acc. js_add acc (latency r)) (successes rs) (v_delay s)"
  by (induction rs arbitrary: s) (auto simp: loop_body_def successes_def Let_def split: prod.splits)

lemma loop_throughput:
  "v_throughput (fold loop_body rs s) = fold count_up (map bucket (successes rs)) (v_throughput s)"
  by (induction rs arbitrary: s) (auto simp: loop_body_def successes_def Let_def split: prod.splits)

lemma fold_track_bounds:
  "fold track (map Num xs) (None, None) = (mn, mx) \<Longrightarrow>
   \<lparr>min_s = js_div (ToNumber mn) (Num 1000), max_s = js_div (ToNumber mx) (Num 1000)\<rparr> =
     bounds_of (set xs)"
  by (auto simp: fold_track_init bounds_of_def split: if_splits)

lemma create_getDefaultTxStats:
  "create (getDefaultTxStats results :: 'o txStatistics) = bounds_of (time_create ` set results)"
proof -
  have "(minCreate (run_loop results init_vars), maxCreate (run_loop results init_vars)) =
          fold track (map Num (map time_create results)) (None, None)"
    unfolding run_loop_def loop_create by (simp add: init_vars_def)
  from fold_track_bounds [OF this [symmetric]] show ?thesis
    by (simp add: getDefaultTxStats_def make_stats_def)
qed

lemma valid_getDefaultTxStats:
  "valid (getDefaultTxStats results :: 'o txStatistics) =
     bounds_of (time_valid ` set (successes results))"
proof -
  have "(minValid (run_loop results init_vars), maxValid (run_loop results init_vars)) =
          fold track (map Num (map time_valid (successes results))) (None, None)"
    unfolding run_loop_def loop_valid by (simp add: init_vars_def)
  from fold_track_bounds [OF this [symmetric]] show ?thesis
    by (simp add: getDefaultTxStats_def make_stats_def)
qed

lemma fold_min_Min: "fold min xs (a::rat) = Min (insert a (set xs))"
  using Min.set_eq_fold [of a xs] by simp

lemma fold_max_Max: "fold max xs (a::rat) = Max (insert a (set xs))"
  using Max.set_eq_fold [of a xs] by simp

lemma delay_min_getDefaultTxStats:
  "min_s (delay (getDefaultTxStats results :: 'o txStatistics)) =
     Num (Min (insert 100000 (seconds ` set (successes results))))"
  by (simp add: getDefaultTxStats_def make_stats_def run_loop_def
      loop_minDelay [of _ 100000] init_vars_def fold_min_Min)

lemma delay_max_getDefaultTxStats:
  "max_s (delay (getDefaultTxStats results :: 'o txStatistics)) =
     Num (Max (insert 0 (seconds ` set (successes results))))"
  by (simp add: getDefaultTxStats_def make_stats_def run_loop_def
      loop_maxDelay [of _ 0] init_vars_def fold_max_Max)

lemma succ_getDefaultTxStats:
  "succ (getDefaultTxStats results :: 'o txStatistics) = length (successes results)"
  by (simp add: getDefaultTxStats_def make_stats_def run_loop_def loop_succ init_vars_def)

lemma fail_getDefaultTxStats:
  "fail (getDefaultTxStats results :: 'o txStatistics) =
     length (filter (\<lambda>stat. status stat \<noteq> ''success'') results)"
  by (simp add: getDefaultTxStats_def make_stats_def run_loop_def loop_fail init_vars_def)

lemma out_getDefaultTxStats: "out (getDefaultTxStats results :: 'o txStatistics) = []"
  by (simp add: getDefaultTxStats_def make_stats_def)

lemma bounds_of_ordered:
  assumes "finite S" "S \<noteq> {}"
  shows "js_le (min_s (bounds_of S)) (max_s (bounds_of S))"
proof -
  from assms obtain x where "x \<in> S" by auto
  with assms have "Min S \<le> Max S"
    using Min_le [of S x] Max_ge [of S x] by linarith
  then have "fl (Min S / 1000) \<le> fl (Max S / 1000)"
    by (intro fl_mono divide_right_mono) auto
  with assms show ?thesis by (simp add: bounds_of_def)
qed

lemma delay_bounds_in_range:
  assumes "successes results \<noteq> []"
    and "\<And>stat. stat \<in> set (successes results) \<Longrightarrow> 0 \<le> seconds stat \<and> seconds stat \<le> 100000"
  shows "min_s (delay (getDefaultTxStats results :: 'o txStatistics)) =
           Num (Min (seconds ` set (successes results))) \<and>
         max_s (delay (getDefaultTxStats results :: 'o txStatistics)) =
           Num (Max (seconds ` set (successes results)))"
proof -
  let ?D = "seconds ` set (successes results)"
  have fin: "finite ?D" and ne: "?D \<noteq> {}" using assms(1) by auto
  have "Min ?D \<in> ?D" and "Max ?D \<in> ?D" using fin ne by (auto intro: Min_in Max_in)
  then have "Min ?D \<le> 100000" and "0 \<le> Max ?D" using assms(2) by auto
  then have "min 100000 (Min ?D) = Min ?D" and "max 0 (Max ?D) = Max ?D" by auto
  then have "Min (insert 100000 ?D) = Min ?D" and "Max (insert 0 ?D) = Max ?D"
    using Min_insert [OF fin ne, of 100000] Max_insert [OF fin ne, of 0] by auto
  then show ?thesis
    by (simp only: delay_min_getDefaultTxStats delay_max_getDefaultTxStats)
qed

section \<open>Throughput as a tally\<close>

lemma map_of_count_up:
  "map_of (count_up k tp) = (map_of tp)(k \<mapsto> (case map_of tp k of None \<Rightarrow> 1 | Some c \<Rightarrow> c + 1))"
  by (simp add: count_up_def update_conv' split: option.splits)

lemma distinct_count_up: "distinct (map fst tp) \<Longrightarrow> distinct (map fst (count_up k tp))"
  by (simp add: count_up_def distinct_update split: option.splits)

lemma fold_count_up:
  "distinct (map fst tp) \<Longrightarrow> distinct (map fst (fold count_up ks tp))"
  "map_of (fold count_up ks tp) k =
     (if count (mset ks) k = 0 then map_of tp k
      else Some (count (mset ks) k + (case map_of tp k of None \<Rightarrow> 0 | Some c \<Rightarrow> c)))"
  by (induction ks arbitrary: tp) (auto simp: map_of_count_up distinct_count_up split: option.splits)

lemma fold_count_up_empty:
  "map_of (fold count_up ks []) k =
     (if count (mset ks) k = 0 then None else Some (count (mset ks) k))"
  by (simp only: fold_count_up(2)) simp

lemma throughput_getDefaultTxStats:
  "throughput (getDefaultTxStats results :: 'o txStatistics) =
     fold count_up (map bucket (successes results)) []"
  by (simp add: getDefaultTxStats_def make_stats_def run_loop_def loop_throughput init_vars_def)

lemma tallies_getDefaultTxStats:
  "tallies (throughput (getDefaultTxStats results :: 'o txStatistics)) results"
  unfolding tallies_def throughput_getDefaultTxStats hits_def
  using fold_count_up(1) [of "[]"] fold_count_up_empty by simp

lemma merge_throughput_distinct:
  "distinct (map fst r) \<Longrightarrow> distinct (map fst (merge_throughput r v))"
  unfolding merge_throughput_def
  by (induction v arbitrary: r) (auto simp: distinct_update split: option.splits)

lemma merge_throughput_map_of:
  "distinct (map fst v) \<Longrightarrow>
   map_of (merge_throughput r v) k =
     (case map_of v k of
        None \<Rightarrow> map_of r k
      | Some c \<Rightarrow> Some ((case map_of r k of None \<Rightarrow> 0 | Some c0 \<Rightarrow> c0) + c))"
  unfolding merge_throughput_def
proof (induction v arbitrary: r)
  case Nil
  then show ?case by simp
next
  case (Cons e v)
  obtain j c where e: "e = (j, c)" by (cases e)
  from Cons.prems e have nj: "map_of v j = None" and dv: "distinct (map fst v)"
    by (auto simp: map_of_eq_None_iff)
  show ?case
    using nj by (auto simp: e Cons.IH [OF dv] update_conv' split: option.splits)
qed

lemma hits_append: "hits (xs @ ys) k = hits xs k + hits ys k"
  by (simp add: hits_def successes_def)

lemma tallies_merge:
  assumes "tallies r xs" "tallies v ys"
  shows "tallies (merge_throughput r v) (xs @ ys)"
  using assms
  by (auto simp: tallies_def merge_throughput_distinct merge_throughput_map_of hits_append
      split: option.splits)

lemma mset_successes: "mset xs = mset ys \<Longrightarrow> mset (successes xs) = mset (successes ys)"
  by (simp add: successes_def)

lemma hits_mset:
  assumes "mset xs = mset ys"
  shows "hits xs k = hits ys k"
proof -
  from assms have "mset (successes xs) = mset (successes ys)" by (rule mset_successes)
  then have "mset (map bucket (successes xs)) = mset (map bucket (successes ys))" by simp
  then show ?thesis by (simp only: hits_def)
qed

lemma tallies_unique:
  assumes "tallies tp xs" "tallies tp' ys" "mset xs = mset ys"
  shows "map_of tp = map_of tp'"
proof (rule ext)
  fix k
  from assms(3) have "hits xs k = hits ys k" by (rule hits_mset)
  with assms(1,2) show "map_of tp k = map_of tp' k" by (simp add: tallies_def)
qed

section \<open>Merging keeps the counts\<close>

lemma summarises_getDefaultTxStats:
  "summarises (getDefaultTxStats results :: 'o txStatistics) results"
  by (simp add: summarises_def succ_getDefaultTxStats fail_getDefaultTxStats
      tallies_getDefaultTxStats)

lemma summarises_merge_step:
  assumes "summarises r xs" "summarises v ys"
  shows "summarises (merge_step r v) (xs @ ys)"
  using assms by (simp add: summarises_def merge_step_def tallies_merge successes_def)

lemma summarises_foldl:
  assumes "summarises (r :: 'o txStatistics) xs"
    and "\<And>q. q \<in> set ps \<Longrightarrow> summarises (run_plan q :: 'o txStatistics) (records_of q)"
  shows "summarises (foldl merge_step r (map run_plan ps)) (xs @ concat (map records_of ps))"
  using assms
proof (induction ps arbitrary: r xs)
  case Nil
  then show ?case by simp
next
  case (Cons q ps)
  have "summarises (merge_step r (run_plan q)) (xs @ records_of q)"
    using Cons.prems by (intro summarises_merge_step) auto
  from Cons.IH [OF this] Cons.prems(2) show ?case by simp
qed

lemma summarises_run_plan: "summarises (run_plan p :: 'o txStatistics) (records_of p)"
proof (induction p)
  case (Group results)
  then show ?case by (simp add: summarises_getDefaultTxStats)
next
  case (Merge p ps)
  then show ?case by (simp add: summarises_foldl)
qed

section \<open>The throughput bucket\<close>

text \<open>
  C1. The bucket that a successful result increments is keyed by
  \<open>Math.round(valid).toString()\<close>, where \<open>valid\<close> is \<open>time_valid\<close> in milliseconds: the time
  is not divided by 1000, unlike \<open>create\<close>, \<open>valid\<close> and \<open>delay\<close>. For the results
  \<open>[{success, time_create = 1000, time_valid = 1500}, {failed, time_create = 2000}]\<close> the
  count is under the key \<open>"1500"\<close>, and there is no key \<open>"2"\<close>.
\<close>

theorem bucket_key_in_milliseconds:
  "map_of (throughput (getDefaultTxStats
      [\<lparr>status = ''success'', time_create = 1000, time_valid = 1500\<rparr>,
       \<lparr>status = ''failed'', time_create = 2000, time_valid = 0\<rparr>] :: unit txStatistics)) ''1500'' = Some 1 \<and>
   map_of (throughput (getDefaultTxStats
      [\<lparr>status = ''success'', time_create = 1000, time_valid = 1500\<rparr>,
       \<lparr>status = ''failed'', time_create = 2000, time_valid = 0\<rparr>] :: unit txStatistics)) ''2'' = None"
  by code_simp

section \<open>The delay\<close>

text \<open>
  C2. \<open>minDelay\<close> starts at 100000 and only decreases, so the minimum that is reported is
  never above 100000 seconds: one successful result with a latency of 200000 seconds
  gives \<open>delay.min = 100000\<close>. (Lemma \<open>delay_bounds_in_range\<close>: \<open>min\<close> and \<open>max\<close> are
  the least and the greatest latency when every latency is between 0 and 100000.)
\<close>

theorem delay_min_capped:
  "latency \<lparr>status = ''success'', time_create = 1700000000000, time_valid = 1700200000000\<rparr> = Num 200000 \<and>
   min_s (delay (getDefaultTxStats
      [\<lparr>status = ''success'', time_create = 1700000000000, time_valid = 1700200000000\<rparr>]
      :: unit txStatistics)) = Num 100000"
  by code_simp

section \<open>Merging partial statistics\<close>

text \<open>
  C3, as amended. For every plan of merging, and every sequence of results that holds
  the same results as the groups of the plan in any order, the merged statistics have
  the same \<open>succ\<close>, the same \<open>fail\<close> and the same count in every throughput bucket as the
  statistics of the whole sequence. (\<open>delay.sum\<close> is a sum of rounded additions and
  depends on the grouping.)
\<close>

theorem merge_agrees:
  assumes "mset results = mset (records_of p)"
  shows "succ (run_plan p :: 'o txStatistics) = succ (getDefaultTxStats results :: 'o txStatistics) \<and>
         fail (run_plan p :: 'o txStatistics) = fail (getDefaultTxStats results :: 'o txStatistics) \<and>
         map_of (throughput (run_plan p :: 'o txStatistics)) =
           map_of (throughput (getDefaultTxStats results :: 'o txStatistics))"
proof -
  have p: "summarises (run_plan p :: 'o txStatistics) (records_of p)"
    by (rule summarises_run_plan)
  have g: "summarises (getDefaultTxStats results :: 'o txStatistics) results"
    by (rule summarises_getDefaultTxStats)
  from assms have m: "mset (successes (records_of p)) = mset (successes results)"
    by (intro mset_successes) simp
  then have l: "length (successes (records_of p)) = length (successes results)"
    by (rule mset_eq_length)
  from assms have f: "length (filter (\<lambda>stat. status stat \<noteq> ''success'') (records_of p)) =
      length (filter (\<lambda>stat. status stat \<noteq> ''success'') results)"
    by (intro mset_eq_length) simp
  have t: "map_of (throughput (run_plan p :: 'o txStatistics)) =
           map_of (throughput (getDefaultTxStats results :: 'o txStatistics))"
    using p g assms by (intro tallies_unique [of _ "records_of p" _ results]) (simp_all add: summarises_def)
  from p g l f t show ?thesis by (simp add: summarises_def)
qed

theorem merge_agrees_witness:
  "mset [\<lparr>status = ''success'', time_create = 1000, time_valid = 1300\<rparr>,
         \<lparr>status = ''success'', time_create = 1000, time_valid = 1100\<rparr>,
         \<lparr>status = ''success'', time_create = 1000, time_valid = 1200\<rparr>] =
   mset (records_of (Merge (Group [\<lparr>status = ''success'', time_create = 1000, time_valid = 1100\<rparr>])
       [Group [\<lparr>status = ''success'', time_create = 1000, time_valid = 1200\<rparr>,
               \<lparr>status = ''success'', time_create = 1000, time_valid = 1300\<rparr>]])) \<and>
   succ (run_plan (Merge (Group [\<lparr>status = ''success'', time_create = 1000, time_valid = 1100\<rparr>])
       [Group [\<lparr>status = ''success'', time_create = 1000, time_valid = 1200\<rparr>,
               \<lparr>status = ''success'', time_create = 1000, time_valid = 1300\<rparr>]]) :: unit txStatistics) =
   succ (getDefaultTxStats [\<lparr>status = ''success'', time_create = 1000, time_valid = 1300\<rparr>,
       \<lparr>status = ''success'', time_create = 1000, time_valid = 1100\<rparr>,
       \<lparr>status = ''success'', time_create = 1000, time_valid = 1200\<rparr>] :: unit txStatistics) \<and>
   fail (run_plan (Merge (Group [\<lparr>status = ''success'', time_create = 1000, time_valid = 1100\<rparr>])
       [Group [\<lparr>status = ''success'', time_create = 1000, time_valid = 1200\<rparr>,
               \<lparr>status = ''success'', time_create = 1000, time_valid = 1300\<rparr>]]) :: unit txStatistics) =
   fail (getDefaultTxStats [\<lparr>status = ''success'', time_create = 1000, time_valid = 1300\<rparr>,
       \<lparr>status = ''success'', time_create = 1000, time_valid = 1100\<rparr>,
       \<lparr>status = ''success'', time_create = 1000, time_valid = 1200\<rparr>] :: unit txStatistics) \<and>
   map_of (throughput (run_plan (Merge (Group [\<lparr>status = ''success'', time_create = 1000, time_valid = 1100\<rparr>])
       [Group [\<lparr>status = ''success'', time_create = 1000, time_valid = 1200\<rparr>,
               \<lparr>status = ''success'', time_create = 1000, time_valid = 1300\<rparr>]]) :: unit txStatistics)) =
   map_of (throughput (getDefaultTxStats [\<lparr>status = ''success'', time_create = 1000, time_valid = 1300\<rparr>,
       \<lparr>status = ''success'', time_create = 1000, time_valid = 1100\<rparr>,
       \<lparr>status = ''success'', time_create = 1000, time_valid = 1200\<rparr>] :: unit txStatistics))"
proof -
  have h: "mset [\<lparr>status = ''success'', time_create = 1000, time_valid = 1300\<rparr>,
         \<lparr>status = ''success'', time_create = 1000, time_valid = 1100\<rparr>,
         \<lparr>status = ''success'', time_create = 1000, time_valid = 1200\<rparr>] =
   mset (records_of (Merge (Group [\<lparr>status = ''success'', time_create = 1000, time_valid = 1100\<rparr>])
       [Group [\<lparr>status = ''success'', time_create = 1000, time_valid = 1200\<rparr>,
               \<lparr>status = ''success'', time_create = 1000, time_valid = 1300\<rparr>]]))"
    by (simp add: add_mset_commute)
  from merge_agrees [OF h, where 'o = unit] h show ?thesis by blast
qed

text \<open>
  C3 as stated fails for \<open>delay.sum\<close>. Three successful results with latencies 0.1,
  0.2 and 0.3 seconds: summing them in one group gives \<open>(0.1 + 0.2) + 0.3\<close>, merging the
  group of the first with the group of the other two gives \<open>0.1 + (0.2 + 0.3)\<close>; the
  first is \<open>0.6000000000000001\<close> and the second is \<open>0.6\<close>.
\<close>

theorem merge_sum_counterexample:
  "sum_s (delay (hd (mergeDefaultTxStats
      [getDefaultTxStats [\<lparr>status = ''success'', time_create = 1000, time_valid = 1100\<rparr>],
       getDefaultTxStats [\<lparr>status = ''success'', time_create = 1000, time_valid = 1200\<rparr>,
                          \<lparr>status = ''success'', time_create = 1000, time_valid = 1300\<rparr>]])
       :: unit txStatistics)) \<noteq>
   sum_s (delay (getDefaultTxStats
      [\<lparr>status = ''success'', time_create = 1000, time_valid = 1100\<rparr>,
       \<lparr>status = ''success'', time_create = 1000, time_valid = 1200\<rparr>,
       \<lparr>status = ''success'', time_create = 1000, time_valid = 1300\<rparr>] :: unit txStatistics))"
  by code_simp

section \<open>Counting\<close>

text \<open>
  C4. For every non-empty sequence of results, \<open>succ + fail\<close> of the statistics is the
  length of the sequence.
\<close>

theorem counts_all:
  assumes "results \<noteq> []"
  shows "succ (getDefaultTxStats results :: 'o txStatistics) +
         fail (getDefaultTxStats results :: 'o txStatistics) = length results"
  using sum_length_filter_compl [of "\<lambda>stat. status stat = ''success''" results]
  by (simp add: succ_getDefaultTxStats fail_getDefaultTxStats successes_def)

theorem counts_all_witness:
  "[\<lparr>status = ''success'', time_create = 1000, time_valid = 1500\<rparr>,
    \<lparr>status = ''failed'', time_create = 2000, time_valid = 0\<rparr>] \<noteq> [] \<and>
   succ (getDefaultTxStats
      [\<lparr>status = ''success'', time_create = 1000, time_valid = 1500\<rparr>,
       \<lparr>status = ''failed'', time_create = 2000, time_valid = 0\<rparr>] :: unit txStatistics) +
   fail (getDefaultTxStats
      [\<lparr>status = ''success'', time_create = 1000, time_valid = 1500\<rparr>,
       \<lparr>status = ''failed'', time_create = 2000, time_valid = 0\<rparr>] :: unit txStatistics) = 2"
  using counts_all [of "[\<lparr>status = ''success'', time_create = 1000, time_valid = 1500\<rparr>,
       \<lparr>status = ''failed'', time_create = 2000, time_valid = 0\<rparr>]", where 'o = unit]
  by simp

text \<open>
  C10. \<open>fail\<close> is the number of results whose status is not \<open>'success'\<close>, and one more
  result of such a status, \<open>'created'\<close> included, adds one to \<open>fail\<close>.
\<close>

theorem non_success_is_fail:
  "fail (getDefaultTxStats results :: 'o txStatistics) =
     length (filter (\<lambda>stat. status stat \<noteq> ''success'') results) \<and>
   (\<forall>stat. status stat \<noteq> ''success'' \<longrightarrow>
      fail (getDefaultTxStats (results @ [stat]) :: 'o txStatistics) =
      fail (getDefaultTxStats results :: 'o txStatistics) + 1)"
  by (simp add: fail_getDefaultTxStats)

theorem non_success_is_fail_witness:
  "status \<lparr>status = ''created'', time_create = 1000, time_valid = 0\<rparr> \<noteq> ''success'' \<and>
   fail (getDefaultTxStats ([\<lparr>status = ''success'', time_create = 1000, time_valid = 1500\<rparr>] @
      [\<lparr>status = ''created'', time_create = 1000, time_valid = 0\<rparr>]) :: unit txStatistics) =
   fail (getDefaultTxStats [\<lparr>status = ''success'', time_create = 1000, time_valid = 1500\<rparr>] :: unit txStatistics) + 1"
  using non_success_is_fail [of "[\<lparr>status = ''success'', time_create = 1000, time_valid = 1500\<rparr>]", where 'o = unit]
  by simp

section \<open>The timeout of \<open>invokeSmartContract\<close>\<close>

text \<open>
  C5, as amended. A timeout that is not of type number (an absent one included) or that
  is a negative number is replaced by 120. Every other timeout is handed to the backend
  as it is: a number that is not negative, and also \<open>NaN\<close>, which is of type number and
  for which \<open>timeout < 0\<close> is false.
\<close>

theorem invokeSmartContract_timeout:
  "(typeof timeout \<noteq> ''number'' \<or> (\<exists>x. timeout = Number (Num x) \<and> x < 0) \<longrightarrow>
      invokeSmartContract invoke ctx contractID contractVer args timeout =
        invoke ctx contractID contractVer args (Number (Num 120))) \<and>
   (timeout = Number NaN \<or> (\<exists>x. timeout = Number (Num x) \<and> 0 \<le> x) \<longrightarrow>
      invokeSmartContract invoke ctx contractID contractVer args timeout =
        invoke ctx contractID contractVer args timeout)"
  by (auto simp: invokeSmartContract_def)

theorem invokeSmartContract_timeout_witness:
  "typeof Undefined \<noteq> ''number'' \<and>
   invokeSmartContract (\<lambda>c i v a t. t) () ''simple'' ''v0'' () Undefined = Number (Num 120) \<and>
   invokeSmartContract (\<lambda>c i v a t. t) () ''simple'' ''v0'' () (Number (Num (- 5))) = Number (Num 120) \<and>
   invokeSmartContract (\<lambda>c i v a t. t) () ''simple'' ''v0'' () (Number (Num 30)) = Number (Num 30) \<and>
   invokeSmartContract (\<lambda>c i v a t. t) () ''simple'' ''v0'' () (Number NaN) = Number NaN"
  using invokeSmartContract_timeout [where timeout = "Undefined" and invoke = "\<lambda>c i v a t. t" and ctx = "()" and contractID = "''simple''" and contractVer = "''v0''" and args = "()"]
    invokeSmartContract_timeout [where timeout = "Number (Num (- 5))" and invoke = "\<lambda>c i v a t. t" and ctx = "()" and contractID = "''simple''" and contractVer = "''v0''" and args = "()"]
    invokeSmartContract_timeout [where timeout = "Number (Num 30)" and invoke = "\<lambda>c i v a t. t" and ctx = "()" and contractID = "''simple''" and contractVer = "''v0''" and args = "()"]
    invokeSmartContract_timeout [where timeout = "Number NaN" and invoke = "\<lambda>c i v a t. t" and ctx = "()" and contractID = "''simple''" and contractVer = "''v0''" and args = "()"]
  by simp

text \<open>
  C5 as stated fails for \<open>NaN\<close>: a backend that returns the timeout it is given returns
  \<open>NaN\<close>, not 120.
\<close>

theorem NaN_timeout_counterexample:
  "invokeSmartContract (\<lambda>c i v a t. t) () ''simple'' ''v0'' () (Number NaN) \<noteq>
   invokeSmartContract (\<lambda>c i v a t. t) () ''simple'' ''v0'' () (Number (Num 120))"
  by (simp add: invokeSmartContract_def)

section \<open>The constructor\<close>

text \<open>
  C6, as amended. For a configuration that has no property \<open>hasOwnProperty\<close> of its own:
  with none of the properties \<open>fabric\<close>, \<open>sawtooth\<close> and \<open>iroha\<close> the constructor throws the
  error \<open>Unknown blockchain config file\<close> with the path, and no object results; with one
  of them the selection does not throw: the first that is present, in the order
  \<open>fabric\<close>, \<open>sawtooth\<close>, \<open>iroha\<close>, is selected, and the constructor returns an object of
  that type with the backend that the class constructs, or throws what the constructor
  of that class throws.
\<close>

theorem unknown_config:
  assumes "config ''hasOwnProperty'' = None"
  shows "(config ''fabric'' = None \<and> config ''sawtooth'' = None \<and> config ''iroha'' = None \<longrightarrow>
            new_Blockchain fabric sawtooth iroha config configPath =
              Inl (Error (''Unknown blockchain config file '' @ configPath))) \<and>
         (config ''fabric'' \<noteq> None \<longrightarrow>
            new_Blockchain fabric sawtooth iroha config configPath =
              (case fabric configPath of
                 Inl e \<Rightarrow> Inl e
               | Inr b \<Rightarrow> Inr \<lparr>bcType = ''fabric'', bcObj = b\<rparr>)) \<and>
         (config ''fabric'' = None \<and> config ''sawtooth'' \<noteq> None \<longrightarrow>
            new_Blockchain fabric sawtooth iroha config configPath =
              (case sawtooth configPath of
                 Inl e \<Rightarrow> Inl e
               | Inr b \<Rightarrow> Inr \<lparr>bcType = ''sawtooth'', bcObj = b\<rparr>)) \<and>
         (config ''fabric'' = None \<and> config ''sawtooth'' = None \<and> config ''iroha'' \<noteq> None \<longrightarrow>
            new_Blockchain fabric sawtooth iroha config configPath =
              (case iroha configPath of
                 Inl e \<Rightarrow> Inl e
               | Inr b \<Rightarrow> Inr \<lparr>bcType = ''iroha'', bcObj = b\<rparr>))"
proof -
  have h: "hasOwnProperty config k = Inr (config k \<noteq> None)" for k
    using assms by (simp add: hasOwnProperty_def)
  show ?thesis
    by (auto simp: new_Blockchain_def new_backend_def h)
qed

theorem unknown_config_witness:
  "(Map.empty :: string \<rightharpoonup> unit property) ''hasOwnProperty'' = None \<and>
   new_Blockchain (\<lambda>p. Inr (1::nat)) (\<lambda>p. Inr 2) (\<lambda>p. Inr 3)
       (Map.empty :: string \<rightharpoonup> unit property) ''cfg.json'' =
     Inl (Error ''Unknown blockchain config file cfg.json'') \<and>
   new_Blockchain (\<lambda>p. Inr (1::nat)) (\<lambda>p. Inr 2) (\<lambda>p. Inr 3)
       [''iroha'' \<mapsto> Data :: unit property, ''sawtooth'' \<mapsto> Data] ''cfg.json'' =
     Inr \<lparr>bcType = ''sawtooth'', bcObj = 2\<rparr> \<and>
   new_Blockchain (\<lambda>p. Inl (Other ())) (\<lambda>p. Inr (2::nat)) (\<lambda>p. Inr 3)
       [''fabric'' \<mapsto> Data :: unit property] ''cfg.json'' =
     Inl (Other ())"
  using unknown_config [where config = "Map.empty :: string \<rightharpoonup> unit property"
      and fabric = "\<lambda>p. Inr (1::nat)" and sawtooth = "\<lambda>p. Inr 2" and iroha = "\<lambda>p. Inr 3"
      and configPath = "''cfg.json''"]
    unknown_config [where config = "[''iroha'' \<mapsto> Data :: unit property, ''sawtooth'' \<mapsto> Data]"
      and fabric = "\<lambda>p. Inr (1::nat)" and sawtooth = "\<lambda>p. Inr 2" and iroha = "\<lambda>p. Inr 3"
      and configPath = "''cfg.json''"]
    unknown_config [where config = "[''fabric'' \<mapsto> Data :: unit property]"
      and fabric = "\<lambda>p. Inl (Other ())" and sawtooth = "\<lambda>p. Inr (2::nat)" and iroha = "\<lambda>p. Inr 3"
      and configPath = "''cfg.json''"]
  by simp

text \<open>
  C6 as stated fails for a configuration with a property \<open>hasOwnProperty\<close> of its own
  that is not a function, such as the JSON files \<open>{"hasOwnProperty": 1}\<close> and
  \<open>{"fabric": {}, "hasOwnProperty": 1}\<close>. The first has no marker key, and the error
  thrown is a \<open>TypeError\<close>, not \<open>Unknown blockchain config file\<close>. The second has the
  marker key \<open>fabric\<close>, the class \<open>fabric\<close> would construct a backend, and the constructor
  throws at the first test of the selection.
\<close>

theorem shadowed_hasOwnProperty_counterexample:
  "new_Blockchain (\<lambda>p. Inr (1::nat)) (\<lambda>p. Inr 2) (\<lambda>p. Inr 3)
       [''hasOwnProperty'' \<mapsto> Data :: unit property] ''cfg.json'' =
     Inl TypeError \<and>
   new_Blockchain (\<lambda>p. Inr (1::nat)) (\<lambda>p. Inr 2) (\<lambda>p. Inr 3)
       [''fabric'' \<mapsto> Data :: unit property, ''hasOwnProperty'' \<mapsto> Data] ''cfg.json'' =
     Inl TypeError"
  by (simp add: new_Blockchain_def hasOwnProperty_def)

section \<open>Bounds\<close>

text \<open>
  C7. When \<open>succ\<close> is positive, \<open>create.min \<le> create.max\<close>, \<open>valid.min \<le> valid.max\<close> and
  \<open>delay.min \<le> delay.max\<close>.
\<close>

theorem bounds_ordered:
  assumes "0 < succ (getDefaultTxStats results :: 'o txStatistics)"
  shows "js_le (min_s (create (getDefaultTxStats results :: 'o txStatistics)))
               (max_s (create (getDefaultTxStats results :: 'o txStatistics))) \<and>
         js_le (min_s (valid (getDefaultTxStats results :: 'o txStatistics)))
               (max_s (valid (getDefaultTxStats results :: 'o txStatistics))) \<and>
         js_le (min_s (delay (getDefaultTxStats results :: 'o txStatistics)))
               (max_s (delay (getDefaultTxStats results :: 'o txStatistics)))"
proof -
  from assms have ne: "successes results \<noteq> []"
    by (simp add: succ_getDefaultTxStats)
  then obtain stat where stat: "stat \<in> set (successes results)"
    by (cases "successes results") auto
  then have "stat \<in> set results" by (simp add: successes_def)
  then have c: "time_create ` set results \<noteq> {}" by auto
  from stat have v: "time_valid ` set (successes results) \<noteq> {}" by auto
  let ?D = "seconds ` set (successes results)"
  have "Min (insert 100000 ?D) \<le> seconds stat" using stat by (intro Min_le) auto
  moreover have "seconds stat \<le> Max (insert 0 ?D)" using stat by (intro Max_ge) auto
  ultimately have d: "Min (insert 100000 ?D) \<le> Max (insert 0 ?D)" by linarith
  have 1: "js_le (min_s (create (getDefaultTxStats results :: 'o txStatistics)))
                 (max_s (create (getDefaultTxStats results :: 'o txStatistics)))"
    unfolding create_getDefaultTxStats by (rule bounds_of_ordered [OF _ c]) simp
  have 2: "js_le (min_s (valid (getDefaultTxStats results :: 'o txStatistics)))
                 (max_s (valid (getDefaultTxStats results :: 'o txStatistics)))"
    unfolding valid_getDefaultTxStats by (rule bounds_of_ordered [OF _ v]) simp
  have 3: "js_le (min_s (delay (getDefaultTxStats results :: 'o txStatistics)))
                 (max_s (delay (getDefaultTxStats results :: 'o txStatistics)))"
    unfolding delay_min_getDefaultTxStats delay_max_getDefaultTxStats js_le.simps by (rule d)
  from 1 2 3 show ?thesis by blast
qed

theorem bounds_ordered_witness:
  "0 < succ (getDefaultTxStats [\<lparr>status = ''success'', time_create = 1000, time_valid = 1500\<rparr>,
       \<lparr>status = ''failed'', time_create = 2000, time_valid = 0\<rparr>] :: unit txStatistics) \<and>
   js_le (min_s (create (getDefaultTxStats [\<lparr>status = ''success'', time_create = 1000, time_valid = 1500\<rparr>,
       \<lparr>status = ''failed'', time_create = 2000, time_valid = 0\<rparr>] :: unit txStatistics)))
         (max_s (create (getDefaultTxStats [\<lparr>status = ''success'', time_create = 1000, time_valid = 1500\<rparr>,
       \<lparr>status = ''failed'', time_create = 2000, time_valid = 0\<rparr>] :: unit txStatistics))) \<and>
   js_le (min_s (valid (getDefaultTxStats [\<lparr>status = ''success'', time_create = 1000, time_valid = 1500\<rparr>,
       \<lparr>status = ''failed'', time_create = 2000, time_valid = 0\<rparr>] :: unit txStatistics)))
         (max_s (valid (getDefaultTxStats [\<lparr>status = ''success'', time_create = 1000, time_valid = 1500\<rparr>,
       \<lparr>status = ''failed'', time_create = 2000, time_valid = 0\<rparr>] :: unit txStatistics))) \<and>
   js_le (min_s (delay (getDefaultTxStats [\<lparr>status = ''success'', time_create = 1000, time_valid = 1500\<rparr>,
       \<lparr>status = ''failed'', time_create = 2000, time_valid = 0\<rparr>] :: unit txStatistics)))
         (max_s (delay (getDefaultTxStats [\<lparr>status = ''success'', time_create = 1000, time_valid = 1500\<rparr>,
       \<lparr>status = ''failed'', time_create = 2000, time_valid = 0\<rparr>] :: unit txStatistics)))"
proof -
  have h: "0 < succ (getDefaultTxStats [\<lparr>status = ''success'', time_create = 1000, time_valid = 1500\<rparr>,
       \<lparr>status = ''failed'', time_create = 2000, time_valid = 0\<rparr>] :: unit txStatistics)"
    by (simp add: succ_getDefaultTxStats successes_def)
  from bounds_ordered [OF h] h show ?thesis by blast
qed

section \<open>The order of the results\<close>

text \<open>
  C8, as amended. Two sequences that hold the same results in different orders have
  statistics with the same \<open>succ\<close>, \<open>fail\<close>, \<open>create\<close>, \<open>valid\<close>, \<open>delay.min\<close>, \<open>delay.max\<close>
  and \<open>out\<close>, and the same count in every throughput bucket. (\<open>delay.sum\<close> is a sum of
  rounded additions in the order of the sequence.)
\<close>

theorem order_independent:
  assumes "mset results = mset results'"
  shows "succ (getDefaultTxStats results :: 'o txStatistics) = succ (getDefaultTxStats results' :: 'o txStatistics) \<and>
         fail (getDefaultTxStats results :: 'o txStatistics) = fail (getDefaultTxStats results' :: 'o txStatistics) \<and>
         create (getDefaultTxStats results :: 'o txStatistics) = create (getDefaultTxStats results' :: 'o txStatistics) \<and>
         valid (getDefaultTxStats results :: 'o txStatistics) = valid (getDefaultTxStats results' :: 'o txStatistics) \<and>
         min_s (delay (getDefaultTxStats results :: 'o txStatistics)) = min_s (delay (getDefaultTxStats results' :: 'o txStatistics)) \<and>
         max_s (delay (getDefaultTxStats results :: 'o txStatistics)) = max_s (delay (getDefaultTxStats results' :: 'o txStatistics)) \<and>
         map_of (throughput (getDefaultTxStats results :: 'o txStatistics)) = map_of (throughput (getDefaultTxStats results' :: 'o txStatistics)) \<and>
         out (getDefaultTxStats results :: 'o txStatistics) = out (getDefaultTxStats results' :: 'o txStatistics)"
proof -
  from assms have s: "set results = set results'" by (rule mset_eq_setD)
  from assms have m: "mset (successes results) = mset (successes results')" by (rule mset_successes)
  then have ss: "set (successes results) = set (successes results')" by (rule mset_eq_setD)
  from m have l: "length (successes results) = length (successes results')" by (rule mset_eq_length)
  from assms have f: "length (filter (\<lambda>stat. status stat \<noteq> ''success'') results) =
      length (filter (\<lambda>stat. status stat \<noteq> ''success'') results')"
    by (intro mset_eq_length) simp
  have t: "map_of (throughput (getDefaultTxStats results :: 'o txStatistics)) =
           map_of (throughput (getDefaultTxStats results' :: 'o txStatistics))"
    using tallies_getDefaultTxStats tallies_getDefaultTxStats assms by (rule tallies_unique)
  have c: "create (getDefaultTxStats results :: 'o txStatistics) =
           create (getDefaultTxStats results' :: 'o txStatistics)"
    by (simp only: create_getDefaultTxStats s)
  have v: "valid (getDefaultTxStats results :: 'o txStatistics) =
           valid (getDefaultTxStats results' :: 'o txStatistics)"
    by (simp only: valid_getDefaultTxStats ss)
  have dmin: "min_s (delay (getDefaultTxStats results :: 'o txStatistics)) =
           min_s (delay (getDefaultTxStats results' :: 'o txStatistics))"
    by (simp only: delay_min_getDefaultTxStats ss)
  have dmax: "max_s (delay (getDefaultTxStats results :: 'o txStatistics)) =
           max_s (delay (getDefaultTxStats results' :: 'o txStatistics))"
    by (simp only: delay_max_getDefaultTxStats ss)
  have su: "succ (getDefaultTxStats results :: 'o txStatistics) =
           succ (getDefaultTxStats results' :: 'o txStatistics)"
    by (simp only: succ_getDefaultTxStats l)
  have fa: "fail (getDefaultTxStats results :: 'o txStatistics) =
           fail (getDefaultTxStats results' :: 'o txStatistics)"
    by (simp only: fail_getDefaultTxStats f)
  have ou: "out (getDefaultTxStats results :: 'o txStatistics) =
           out (getDefaultTxStats results' :: 'o txStatistics)"
    by (simp only: out_getDefaultTxStats)
  show ?thesis by (simp only: su fa c v dmin dmax t ou)
qed

theorem order_independent_witness:
  "mset [\<lparr>status = ''success'', time_create = 1000, time_valid = 1500\<rparr>,
         \<lparr>status = ''failed'', time_create = 2000, time_valid = 0\<rparr>] =
   mset [\<lparr>status = ''failed'', time_create = 2000, time_valid = 0\<rparr>,
         \<lparr>status = ''success'', time_create = 1000, time_valid = 1500\<rparr>] \<and>
   succ (getDefaultTxStats [\<lparr>status = ''success'', time_create = 1000, time_valid = 1500\<rparr>,
       \<lparr>status = ''failed'', time_create = 2000, time_valid = 0\<rparr>] :: unit txStatistics) =
   succ (getDefaultTxStats [\<lparr>status = ''failed'', time_create = 2000, time_valid = 0\<rparr>,
       \<lparr>status = ''success'', time_create = 1000, time_valid = 1500\<rparr>] :: unit txStatistics) \<and>
   fail (getDefaultTxStats [\<lparr>status = ''success'', time_create = 1000, time_valid = 1500\<rparr>,
       \<lparr>status = ''failed'', time_create = 2000, time_valid = 0\<rparr>] :: unit txStatistics) =
   fail (getDefaultTxStats [\<lparr>status = ''failed'', time_create = 2000, time_valid = 0\<rparr>,
       \<lparr>status = ''success'', time_create = 1000, time_valid = 1500\<rparr>] :: unit txStatistics) \<and>
   create (getDefaultTxStats [\<lparr>status = ''success'', time_create = 1000, time_valid = 1500\<rparr>,
       \<lparr>status = ''failed'', time_create = 2000, time_valid = 0\<rparr>] :: unit txStatistics) =
   create (getDefaultTxStats [\<lparr>status = ''failed'', time_create = 2000, time_valid = 0\<rparr>,
       \<lparr>status = ''success'', time_create = 1000, time_valid = 1500\<rparr>] :: unit txStatistics) \<and>
   valid (getDefaultTxStats [\<lparr>status = ''success'', time_create = 1000, time_valid = 1500\<rparr>,
       \<lparr>status = ''failed'', time_create = 2000, time_valid = 0\<rparr>] :: unit txStatistics) =
   valid (getDefaultTxStats [\<lparr>status = ''failed'', time_create = 2000, time_valid = 0\<rparr>,
       \<lparr>status = ''success'', time_create = 1000, time_valid = 1500\<rparr>] :: unit txStatistics) \<and>
   min_s (delay (getDefaultTxStats [\<lparr>status = ''success'', time_create = 1000, time_valid = 1500\<rparr>,
       \<lparr>status = ''failed'', time_create = 2000, time_valid = 0\<rparr>] :: unit txStatistics)) =
   min_s (delay (getDefaultTxStats [\<lparr>status = ''failed'', time_create = 2000, time_valid = 0\<rparr>,
       \<lparr>status = ''success'', time_create = 1000, time_valid = 1500\<rparr>] :: unit txStatistics)) \<and>
   max_s (delay (getDefaultTxStats [\<lparr>status = ''success'', time_create = 1000, time_valid = 1500\<rparr>,
       \<lparr>status = ''failed'', time_create = 2000, time_valid = 0\<rparr>] :: unit txStatistics)) =
   max_s (delay (getDefaultTxStats [\<lparr>status = ''failed'', time_create = 2000, time_valid = 0\<rparr>,
       \<lparr>status = ''success'', time_create = 1000, time_valid = 1500\<rparr>] :: unit txStatistics)) \<and>
   map_of (throughput (getDefaultTxStats [\<lparr>status = ''success'', time_create = 1000, time_valid = 1500\<rparr>,
       \<lparr>status = ''failed'', time_create = 2000, time_valid = 0\<rparr>] :: unit txStatistics)) =
   map_of (throughput (getDefaultTxStats [\<lparr>status = ''failed'', time_create = 2000, time_valid = 0\<rparr>,
       \<lparr>status = ''success'', time_create = 1000, time_valid = 1500\<rparr>] :: unit txStatistics)) \<and>
   out (getDefaultTxStats [\<lparr>status = ''success'', time_create = 1000, time_valid = 1500\<rparr>,
       \<lparr>status = ''failed'', time_create = 2000, time_valid = 0\<rparr>] :: unit txStatistics) =
   out (getDefaultTxStats [\<lparr>status = ''failed'', time_create = 2000, time_valid = 0\<rparr>,
       \<lparr>status = ''success'', time_create = 1000, time_valid = 1500\<rparr>] :: unit txStatistics)"
proof -
  have h: "mset [\<lparr>status = ''success'', time_create = 1000, time_valid = 1500\<rparr>,
         \<lparr>status = ''failed'', time_create = 2000, time_valid = 0\<rparr>] =
   mset [\<lparr>status = ''failed'', time_create = 2000, time_valid = 0\<rparr>,
         \<lparr>status = ''success'', time_create = 1000, time_valid = 1500\<rparr>]"
    by (simp add: add_mset_commute)
  from order_independent [OF h, where 'o = unit] h show ?thesis by blast
qed

text \<open>
  C8 as stated fails for \<open>delay.sum\<close>. The same three results in two orders: the latencies
  0.1, 0.2 and 0.3 seconds are summed as \<open>(0.1 + 0.2) + 0.3\<close> in one order and as
  \<open>(0.3 + 0.2) + 0.1\<close> in the other; the first is \<open>0.6000000000000001\<close> and the second
  is \<open>0.6\<close>.
\<close>

theorem order_sum_counterexample:
  "mset [\<lparr>status = ''success'', time_create = 1000, time_valid = 1100\<rparr>,
         \<lparr>status = ''success'', time_create = 1000, time_valid = 1200\<rparr>,
         \<lparr>status = ''success'', time_create = 1000, time_valid = 1300\<rparr>] =
   mset [\<lparr>status = ''success'', time_create = 1000, time_valid = 1300\<rparr>,
         \<lparr>status = ''success'', time_create = 1000, time_valid = 1200\<rparr>,
         \<lparr>status = ''success'', time_create = 1000, time_valid = 1100\<rparr>] \<and>
   sum_s (delay (getDefaultTxStats
      [\<lparr>status = ''success'', time_create = 1000, time_valid = 1100\<rparr>,
       \<lparr>status = ''success'', time_create = 1000, time_valid = 1200\<rparr>,
       \<lparr>status = ''success'', time_create = 1000, time_valid = 1300\<rparr>] :: unit txStatistics)) \<noteq>
   sum_s (delay (getDefaultTxStats
      [\<lparr>status = ''success'', time_create = 1000, time_valid = 1300\<rparr>,
       \<lparr>status = ''success'', time_create = 1000, time_valid = 1200\<rparr>,
       \<lparr>status = ''success'', time_create = 1000, time_valid = 1100\<rparr>] :: unit txStatistics))"
  by code_simp

section \<open>No results\<close>



end
